theory Spec2Isabelle
  imports Main
begin

section \<open>The host language: values, faults and string conversion\<close>

text \<open>
  The library is TypeScript; at run time its payloads are JavaScript values and the
  faults it raises or catches are JavaScript values too. The operations below read three
  things of the host: the test \<open>value != null\<close>, the test \<open>e instanceof Error\<close> and the
  conversion of a value to a string (by a template literal and by the function
  \<open>String\<close>). The datatype keeps the values those operations tell apart:
  \<^item> \<open>JNum n\<close> is the number \<open>n\<close>, for a safe integer \<open>n\<close> (between
    \<open>Number.MIN_SAFE_INTEGER\<close> and \<open>Number.MAX_SAFE_INTEGER\<close>): the integers the host
    holds exactly and prints in plain decimal digits. \<open>JNaN\<close> is the number NaN. Other
    numbers are not modelled;
  \<^item> \<open>JSymbol d\<close> is a symbol with description \<open>d\<close>;
  \<^item> \<open>Error m\<close> is the object \<open>new Error(m)\<close> and \<open>TypeError m\<close> the object
    \<open>new TypeError(m)\<close>, which the host itself raises; \<open>JErrorSubclass name m\<close> is an
    instance, with message \<open>m\<close>, of another subclass of Error named \<open>name\<close> (as
    \<open>RangeError\<close>, or the \<open>SyntaxError\<close> of \<open>JSON.parse\<close>);
  \<^item> \<open>JObject c\<close> is any other object, one that is not an Error, kept only as the
    outcome \<open>c\<close> of converting it to a string: \<open>Some s\<close> when its \<open>toString\<close> yields
    \<open>s\<close> (as \<open>[object Object]\<close> for an object literal), \<open>None\<close> when the conversion
    raises a TypeError because the object has no usable \<open>toString\<close> or \<open>valueOf\<close> (as
    for \<open>Object.create(null)\<close>).
\<close>

typedef safe_int = "{n :: int. - (2 ^ 53) < n \<and> n < 2 ^ 53}"
  by (rule exI [of _ 0]) simp

setup_lifting type_definition_safe_int

instantiation safe_int :: zero
begin

lift_definition zero_safe_int :: safe_int is 0
  by simp

instance ..

end

datatype jsval =
    JUndefined
  | JNull
  | JBool bool
  | JNum safe_int
  | JNaN
  | JStr string
  | JSymbol string
  | Error string
  | TypeError string
  | JErrorSubclass string string
  | JObject "string option"

text \<open>\<open>value != null\<close>: loose inequality with null, false for null and undefined only.\<close>

fun loose_ne_null :: "jsval \<Rightarrow> bool" where
  "loose_ne_null JUndefined = False"
| "loose_ne_null JNull = False"
| "loose_ne_null _ = True"

text \<open>\<open>e instanceof Error\<close>: true of an Error and of an instance of any subclass.\<close>

fun instanceof_Error :: "jsval \<Rightarrow> bool" where
  "instanceof_Error (Error _) = True"
| "instanceof_Error (TypeError _) = True"
| "instanceof_Error (JErrorSubclass _ _) = True"
| "instanceof_Error _ = False"

text \<open>
  Decimal digits of a number, as \<open>Number.prototype.toString\<close> prints a safe integer.
\<close>

definition digit_char :: "nat \<Rightarrow> char" where
  "digit_char d = char_of (48 + d)"

function decimal :: "nat \<Rightarrow> string" where
  "decimal n = (if n < 10 then [digit_char n] else decimal (n div 10) @ [digit_char (n mod 10)])"
  by pat_completeness auto
termination
  by (relation "measure id") auto

definition Number_toString :: "int \<Rightarrow> string" where
  "Number_toString i = (if i < 0 then CHR ''-'' # decimal (nat (- i)) else decimal (nat i))"

text \<open>
  \<open>Error.prototype.toString\<close> with the class name \<open>name\<close>: the name alone when the
  message is empty, otherwise name, colon, space, message.
\<close>

definition Error_toString :: "string \<Rightarrow> string \<Rightarrow> string" where
  "Error_toString name message = (if message = [] then name else name @ '': '' @ message)"

text \<open>
  The abstract operation ToString, which a template literal \<open>`${v}`\<close> applies to \<open>v\<close>.
  It raises a TypeError on a symbol and on an object with no primitive form; a raised
  fault is \<open>Inl\<close>.
\<close>

fun ToString :: "jsval \<Rightarrow> jsval + string" where
  "ToString JUndefined = Inr ''undefined''"
| "ToString JNull = Inr ''null''"
| "ToString (JBool b) = Inr (if b then ''true'' else ''false'')"
| "ToString (JNum n) = Inr (Number_toString (Rep_safe_int n))"
| "ToString JNaN = Inr ''NaN''"
| "ToString (JStr s) = Inr s"
| "ToString (JSymbol d) = Inl (TypeError ''Cannot convert a Symbol value to a string'')"
| "ToString (Error m) = Inr (Error_toString ''Error'' m)"
| "ToString (TypeError m) = Inr (Error_toString ''TypeError'' m)"
| "ToString (JErrorSubclass name m) = Inr (Error_toString name m)"
| "ToString (JObject (Some s)) = Inr s"
| "ToString (JObject None) = Inl (TypeError ''Cannot convert object to primitive value'')"

text \<open>
  The function \<open>String(v)\<close>: the descriptive string of a symbol, ToString of anything
  else.
\<close>

fun String_call :: "jsval \<Rightarrow> jsval + string" where
  "String_call (JSymbol d) = Inr (''Symbol('' @ d @ '')'')"
| "String_call v = ToString v"

subsection \<open>Callbacks\<close>

text \<open>
  A function passed to the library may read and change the program's state and may raise.
  A call is a computation from a state \<open>'s\<close> to an outcome with the state after it:
  \<open>Inr\<close> a returned value, \<open>Inl\<close> a raised fault. Callbacks are taken to return.
\<close>

type_synonym ('a, 's) eff = "'s \<Rightarrow> (jsval + 'a) \<times> 's"

definition ret :: "'a \<Rightarrow> ('a, 's) eff" where
  "ret x = (\<lambda>s. (Inr x, s))"

definition raise :: "jsval \<Rightarrow> ('a, 's) eff" where
  "raise e = (\<lambda>s. (Inl e, s))"

text \<open>Sequencing: a fault of the first computation skips the second.\<close>

definition bind :: "('a, 's) eff \<Rightarrow> ('a \<Rightarrow> ('b, 's) eff) \<Rightarrow> ('b, 's) eff" where
  "bind m k = (\<lambda>s. case m s of (Inl e, s') \<Rightarrow> (Inl e, s') | (Inr x, s') \<Rightarrow> k x s')"

text \<open>\<open>try { m } catch (e) { h(e) }\<close>.\<close>

definition try_catch :: "('a, 's) eff \<Rightarrow> (jsval \<Rightarrow> ('a, 's) eff) \<Rightarrow> ('a, 's) eff" where
  "try_catch m h = (\<lambda>s. case m s of (Inl e, s') \<Rightarrow> h e s' | (Inr x, s') \<Rightarrow> (Inr x, s'))"

text \<open>An expression of the host that has no effect on the state but may raise.\<close>

definition lift :: "jsval + 'a \<Rightarrow> ('a, 's) eff" where
  "lift r = (\<lambda>s. (r, s))"

text \<open>
  A callback that computes \<open>f\<close> and counts its own invocations in the state, as a test
  spy does.
\<close>

definition counting :: "('a \<Rightarrow> 'b) \<Rightarrow> 'a \<Rightarrow> ('b, nat) eff" where
  "counting f = (\<lambda>x n. (Inr (f x), Suc n))"

section \<open>Option (src/option.ts)\<close>

text \<open>
  The abstract class \<open>Option<T>\<close> with its two concrete subclasses \<open>SomeOption\<close> (field
  \<open>value\<close>) and \<open>NoneOption\<close>. A method is a function of the receiver, with one equation
  for each subclass.
\<close>

datatype 'a Option = SomeOption 'a | NoneOption

text \<open>The factories \<open>Some(value)\<close> and \<open>None()\<close>.\<close>

abbreviation Some_Option :: "'a \<Rightarrow> 'a Option" where
  "Some_Option value \<equiv> SomeOption value"

abbreviation None_Option :: "'a Option" where
  "None_Option \<equiv> NoneOption"

fun isSome :: "'a Option \<Rightarrow> bool" where
  "isSome (SomeOption value) = True"
| "isSome NoneOption = False"

fun isNone :: "'a Option \<Rightarrow> bool" where
  "isNone (SomeOption value) = False"
| "isNone NoneOption = True"

fun Option_unwrap :: "'a Option \<Rightarrow> jsval + 'a" where
  "Option_unwrap (SomeOption value) = Inr value"
| "Option_unwrap NoneOption = Inl (Error ''Called unwrap on a None value'')"

fun Option_expect :: "'a Option \<Rightarrow> string \<Rightarrow> jsval + 'a" where
  "Option_expect (SomeOption value) _ = Inr value"
| "Option_expect NoneOption msg = Inl (Error msg)"

fun Option_unwrapOrElse :: "'a Option \<Rightarrow> (unit \<Rightarrow> ('a, 's) eff) \<Rightarrow> ('a, 's) eff" where
  "Option_unwrapOrElse (SomeOption value) _ = ret value"
| "Option_unwrapOrElse NoneOption f = f ()"

fun Option_map :: "'a Option \<Rightarrow> ('a \<Rightarrow> ('b, 's) eff) \<Rightarrow> ('b Option, 's) eff" where
  "Option_map (SomeOption value) f = bind (f value) (\<lambda>u. ret (Some_Option u))"
| "Option_map NoneOption _ = ret None_Option"

fun Option_orElse :: "'a Option \<Rightarrow> (unit \<Rightarrow> ('a Option, 's) eff) \<Rightarrow> ('a Option, 's) eff" where
  "Option_orElse (SomeOption value) _ = ret (SomeOption value)"
| "Option_orElse NoneOption f = f ()"

text \<open>
  \<open>zip\<close> of a \<open>SomeOption\<close> calls the partial \<open>other.unwrap()\<close> behind the test
  \<open>other.isSome()\<close>; a fault of that call would leave \<open>zip\<close>. The pair \<open>[T, U]\<close> is a
  HOL pair.
\<close>

fun Option_zip :: "'a Option \<Rightarrow> 'b Option \<Rightarrow> jsval + ('a \<times> 'b) Option" where
  "Option_zip (SomeOption value) other =
     (if isSome other
      then (case Option_unwrap other of
              Inl e \<Rightarrow> Inl e
            | Inr u \<Rightarrow> Inr (Some_Option (value, u)))
      else Inr None_Option)"
| "Option_zip NoneOption _ = Inr None_Option"

text \<open>The handler object \<open>{ Some: (value) => U, None: () => U }\<close>.\<close>

record ('a, 'u, 's) Option_patterns =
  Some_arm :: "'a \<Rightarrow> ('u, 's) eff"
  None_arm :: "unit \<Rightarrow> ('u, 's) eff"

fun Option_match :: "'a Option \<Rightarrow> ('a, 'u, 's) Option_patterns \<Rightarrow> ('u, 's) eff" where
  "Option_match (SomeOption value) patterns = Some_arm patterns value"
| "Option_match NoneOption patterns = None_arm patterns ()"

text \<open>The static \<open>Option.fromNullable(value)\<close>.\<close>

definition fromNullable :: "jsval \<Rightarrow> jsval Option" where
  "fromNullable value = (if loose_ne_null value then Some_Option value else None_Option)"

section \<open>Result (src/result.ts)\<close>

text \<open>
  The abstract class \<open>Result<T, E>\<close> with its two concrete subclasses \<open>OkResult\<close> (field
  \<open>value\<close>) and \<open>ErrResult\<close> (field \<open>error\<close>).
\<close>

datatype ('a, 'e) Result = OkResult 'a | ErrResult 'e

text \<open>The factories \<open>Ok(value)\<close> and \<open>Fail(error)\<close>.\<close>

abbreviation Ok :: "'a \<Rightarrow> ('a, 'e) Result" where
  "Ok value \<equiv> OkResult value"

abbreviation Fail :: "'e \<Rightarrow> ('a, 'e) Result" where
  "Fail error \<equiv> ErrResult error"

fun isOk :: "('a, 'e) Result \<Rightarrow> bool" where
  "isOk (OkResult value) = True"
| "isOk (ErrResult error) = False"

fun isErr :: "('a, 'e) Result \<Rightarrow> bool" where
  "isErr (OkResult value) = False"
| "isErr (ErrResult error) = True"

text \<open>
  \<open>unwrap\<close> of an \<open>ErrResult\<close> builds its message with the template literal
  \<open>`Called unwrap on an Err value: ${this.error}`\<close>, which converts the error payload
  with ToString before \<open>new Error\<close> is reached; the payload is a value of the host here.
\<close>

fun Result_unwrap :: "('a, jsval) Result \<Rightarrow> jsval + 'a" where
  "Result_unwrap (OkResult value) = Inr value"
| "Result_unwrap (ErrResult error) =
     (case ToString error of
        Inl t \<Rightarrow> Inl t
      | Inr s \<Rightarrow> Inl (Error (''Called unwrap on an Err value: '' @ s)))"

fun Result_unwrapErr :: "('a, 'e) Result \<Rightarrow> jsval + 'e" where
  "Result_unwrapErr (OkResult value) = Inl (Error ''Called unwrapErr on an Ok value'')"
| "Result_unwrapErr (ErrResult error) = Inr error"

fun Result_unwrapOrElse :: "('a, 'e) Result \<Rightarrow> ('e \<Rightarrow> ('a, 's) eff) \<Rightarrow> ('a, 's) eff" where
  "Result_unwrapOrElse (OkResult value) _ = ret value"
| "Result_unwrapOrElse (ErrResult error) f = f error"

fun Result_map :: "('a, 'e) Result \<Rightarrow> ('a \<Rightarrow> ('b, 's) eff) \<Rightarrow> (('b, 'e) Result, 's) eff" where
  "Result_map (OkResult value) f = bind (f value) (\<lambda>u. ret (Ok u))"
| "Result_map (ErrResult error) _ = ret (Fail error)"

fun Result_mapErr :: "('a, 'e) Result \<Rightarrow> ('e \<Rightarrow> ('f, 's) eff) \<Rightarrow> (('a, 'f) Result, 's) eff" where
  "Result_mapErr (OkResult value) _ = ret (Ok value)"
| "Result_mapErr (ErrResult error) f = bind (f error) (\<lambda>u. ret (Fail u))"

fun Result_orElse ::
  "('a, 'e) Result \<Rightarrow> ('e \<Rightarrow> (('a, 'f) Result, 's) eff) \<Rightarrow> (('a, 'f) Result, 's) eff" where
  "Result_orElse (OkResult value) _ = ret (Ok value)"
| "Result_orElse (ErrResult error) f = f error"

text \<open>The handler object \<open>{ Ok: (value) => U, Err: (error) => U }\<close>.\<close>

record ('a, 'e, 'u, 's) Result_patterns =
  Ok_arm :: "'a \<Rightarrow> ('u, 's) eff"
  Err_arm :: "'e \<Rightarrow> ('u, 's) eff"

fun Result_match :: "('a, 'e) Result \<Rightarrow> ('a, 'e, 'u, 's) Result_patterns \<Rightarrow> ('u, 's) eff" where
  "Result_match (OkResult value) patterns = Ok_arm patterns value"
| "Result_match (ErrResult error) patterns = Err_arm patterns error"

text \<open>
  The static \<open>Result.fromThrowable(f)\<close>: the call \<open>f()\<close> is inside \<open>try\<close>; the handler
  evaluates \<open>e instanceof Error ? e : new Error(String(e))\<close>, and \<open>String(e)\<close> is an
  expression of the handler, outside any \<open>try\<close>.
\<close>

definition fromThrowable :: "(unit \<Rightarrow> ('a, 's) eff) \<Rightarrow> (('a, jsval) Result, 's) eff" where
  "fromThrowable f =
     try_catch (bind (f ()) (\<lambda>v. ret (Ok v)))
       (\<lambda>e. if instanceof_Error e then ret (Fail e)
            else bind (lift (String_call e)) (\<lambda>m. ret (Fail (Error m))))"

text \<open>
  The static \<open>Result.combine(results)\<close>: the \<open>for\<close> loop over \<open>results\<close> with the array
  \<open>values\<close> it pushes to. Both extractors it calls are partial; a fault of either would
  leave \<open>combine\<close>.
\<close>

fun combine_loop ::
  "('a, jsval) Result list \<Rightarrow> 'a list \<Rightarrow> jsval + ('a list, jsval) Result" where
  "combine_loop [] values = Inr (Ok values)"
| "combine_loop (result # results) values =
     (if isErr result
      then (case Result_unwrapErr result of
              Inl t \<Rightarrow> Inl t
            | Inr error \<Rightarrow> Inr (Fail error))
      else (case Result_unwrap result of
              Inl t \<Rightarrow> Inl t
            | Inr value \<Rightarrow> combine_loop results (values @ [value])))"

definition combine :: "('a, jsval) Result list \<Rightarrow> jsval + ('a list, jsval) Result" where
  "combine results = combine_loop results []"

section \<open>The standalone matcher (src/match.ts)\<close>

text \<open>
  \<open>match(value, patterns)\<close> has two overload signatures and one body,
  \<open>value.match(patterns)\<close>. Each signature is one function here; the method the body
  reaches is the one of the receiver's class.
\<close>

definition match_Option :: "'a Option \<Rightarrow> ('a, 'u, 's) Option_patterns \<Rightarrow> ('u, 's) eff" where
  "match_Option value patterns = Option_match value patterns"

definition match_Result ::
  "('a, 'e) Result \<Rightarrow> ('a, 'e, 'u, 's) Result_patterns \<Rightarrow> ('u, 's) eff" where
  "match_Result value patterns = Result_match value patterns"

section \<open>Properties\<close>

subsection \<open>Helper facts\<close>

lemma bind_ret_left: "bind (ret x) k = k x"
  by (simp add: bind_def ret_def)

lemma bind_ret_right: "bind m ret = m"
  by (auto simp: bind_def ret_def fun_eq_iff split: prod.splits sum.splits)

lemma bind_bind: "bind (bind m k) h = bind m (\<lambda>x. bind (k x) h)"
  by (auto simp: bind_def fun_eq_iff split: prod.splits sum.splits)

lemma ToString_raises_iff:
  "(\<exists>t. ToString e = Inl t) = ((\<exists>d. e = JSymbol d) \<or> e = JObject None)"
  by (cases e rule: ToString.cases) simp_all

text \<open>
  What \<open>unwrap\<close> and \<open>unwrapErr\<close> of a Result do along each path: \<open>unwrap\<close> returns
  the payload of a success and always fails on a failure, with the library's error and
  the payload's string in its message whenever the template literal converts the
  payload; \<open>unwrapErr\<close> returns the payload of a failure and fails on a success.
\<close>

lemma Result_unwrap_Ok: "Result_unwrap (OkResult v) = Inr v"
  by simp

lemma Result_unwrap_Err_convertible:
  "ToString e = Inr s \<Longrightarrow>
   Result_unwrap (ErrResult e) = Inl (Error (''Called unwrap on an Err value: '' @ s))"
  by simp

lemma Result_unwrap_Err_unconvertible:
  "ToString e = Inl t \<Longrightarrow> Result_unwrap (ErrResult e) = Inl t"
  by simp

lemma Result_unwrap_Err_fails: "\<exists>t. Result_unwrap (ErrResult e) = Inl t"
  by (cases "ToString e") simp_all

lemma Result_unwrapErr_paths:
  "Result_unwrapErr (ErrResult e) = Inr e"
  "Result_unwrapErr (OkResult v) = Inl (Error ''Called unwrapErr on an Ok value'')"
  by simp_all

lemma Result_unwrap_test_example:
  "Result_unwrap (ErrResult (JStr ''oops'') :: (unit, jsval) Result)
     = Inl (Error ''Called unwrap on an Err value: oops'')"
  by simp

lemma combine_loop_all_Ok:
  "combine_loop (map OkResult vs) acc = Inr (OkResult (acc @ vs))"
  by (induction vs arbitrary: acc) simp_all

lemma combine_loop_first_Err:
  "combine_loop (map OkResult vs @ ErrResult e # rest) acc = Inr (ErrResult e)"
  by (induction vs arbitrary: acc) simp_all

text \<open>A list of results is all successes, or successes up to a first failure.\<close>

lemma Result_list_shape:
  "(\<exists>vs. results = map OkResult vs)
   \<or> (\<exists>vs e rest. results = map OkResult vs @ ErrResult e # rest)"
proof (induction results)
  case Nil
  then show ?case by simp
next
  case (Cons r results)
  show ?case
  proof (cases r)
    case (OkResult v)
    from Cons.IH show ?thesis
    proof
      assume "\<exists>vs. results = map OkResult vs"
      then obtain vs where "results = map OkResult vs" ..
      with OkResult have "r # results = map OkResult (v # vs)" by simp
      then have "\<exists>ws. r # results = map OkResult ws" by (rule exI)
      then show ?thesis by (rule disjI1)
    next
      assume "\<exists>vs e rest. results = map OkResult vs @ ErrResult e # rest"
      then obtain vs e rest where "results = map OkResult vs @ ErrResult e # rest" by blast
      with OkResult have "r # results = map OkResult (v # vs) @ ErrResult e # rest" by simp
      then have "\<exists>ws e' rest'. r # results = map OkResult ws @ ErrResult e' # rest'"
        by (intro exI)
      then show ?thesis by (rule disjI2)
    qed
  next
    case (ErrResult e)
    then have "r # results = map OkResult [] @ ErrResult e # results" by simp
    then have "\<exists>ws e' rest'. r # results = map OkResult ws @ ErrResult e' # rest'"
      by (intro exI)
    then show ?thesis by (rule disjI2)
  qed
qed

lemma combine_loop_returns: "\<exists>r. combine_loop results acc = Inr r"
proof (induction results arbitrary: acc)
  case Nil
  show ?case by simp
next
  case (Cons result results)
  show ?case
  proof (cases result)
    case (OkResult v)
    then show ?thesis using Cons.IH [of "acc @ [v]"] by simp
  next
    case (ErrResult e)
    then show ?thesis by simp
  qed
qed

text \<open>
  What \<open>fromThrowable\<close> does along each path of its body: \<open>f\<close> returns; \<open>f\<close> raises an
  Error; \<open>f\<close> raises something else and \<open>String\<close> converts it; \<open>f\<close> raises something
  else and \<open>String\<close> raises in turn.
\<close>

lemma fromThrowable_returns:
  "f () s = (Inr v, s') \<Longrightarrow> fromThrowable f s = (Inr (OkResult v), s')"
  by (simp add: fromThrowable_def try_catch_def bind_def ret_def)

lemma fromThrowable_Error_fault:
  "f () s = (Inl e, s') \<Longrightarrow> instanceof_Error e \<Longrightarrow>
   fromThrowable f s = (Inr (ErrResult e), s')"
  by (simp add: fromThrowable_def try_catch_def bind_def ret_def)

lemma fromThrowable_other_fault:
  "f () s = (Inl e, s') \<Longrightarrow> \<not> instanceof_Error e \<Longrightarrow> String_call e = Inr m \<Longrightarrow>
   fromThrowable f s = (Inr (ErrResult (Error m)), s')"
  by (simp add: fromThrowable_def try_catch_def bind_def ret_def lift_def)

lemma fromThrowable_String_raises:
  "f () s = (Inl e, s') \<Longrightarrow> \<not> instanceof_Error e \<Longrightarrow> String_call e = Inl t \<Longrightarrow>
   fromThrowable f s = (Inl t, s')"
  by (simp add: fromThrowable_def try_catch_def bind_def ret_def lift_def)

lemma fromThrowable_spec_examples:
  "fromThrowable (\<lambda>_. ret (42 :: int) :: (int, unit) eff) () = (Inr (OkResult 42), ())"
  "fromThrowable (\<lambda>_. raise (Error ''boom'') :: (int, unit) eff) ()
     = (Inr (ErrResult (Error ''boom'')), ())"
  "fromThrowable (\<lambda>_. raise (JStr ''plain'') :: (int, unit) eff) ()
     = (Inr (ErrResult (Error ''plain'')), ())"
  by (simp_all add: fromThrowable_def try_catch_def bind_def ret_def lift_def raise_def)

subsection \<open>Option: forced extraction\<close>

text \<open>
  C1. For every Option, \<open>unwrap()\<close> returns the payload when the option is Present
  (\<open>SomeOption\<close>) and fails when it is Absent (\<open>NoneOption\<close>), with the one fixed error the
  code raises there, \<open>new Error('Called unwrap on a None value')\<close>, which is what the
  specification names \<open>EmptyValueError\<close>; \<open>expect(message)\<close> returns the same payload on
  Present, and on Absent the error it raises carries exactly the caller's message.
\<close>

theorem Option_unwrap_expect:
  "Option_unwrap (SomeOption v) = Inr v
   \<and> Option_unwrap (NoneOption :: 'a Option) = Inl (Error ''Called unwrap on a None value'')
   \<and> Option_expect (SomeOption v) msg = Inr v
   \<and> Option_expect (NoneOption :: 'a Option) msg = Inl (Error msg)"
  by simp

subsection \<open>Result: forced extraction\<close>

text \<open>
  C2 holds along every path but one. For every Result, \<open>unwrap()\<close> returns the success
  payload on Success and \<open>unwrapErr()\<close> returns the failure payload on Failure;
  \<open>unwrapErr()\<close> on Success fails with the fixed error
  \<open>new Error('Called unwrapErr on an Ok value')\<close> (the specification's
  \<open>UnwrapErrOnSuccessError\<close>), and \<open>unwrap()\<close> on Failure fails with
  \<open>new Error('Called unwrap on an Err value: ' + s)\<close> (the specification's
  \<open>UnwrapOnFailureError\<close>) when the template literal converts the payload to \<open>s\<close>. But
  the template literal is evaluated before \<open>new Error\<close> is reached: with the symbol
  \<open>Symbol('id')\<close> as failure payload the conversion raises the host's TypeError, so the
  fault \<open>unwrap()\<close> raises is not the library's error and its message embeds nothing of
  the payload, although the payload has the string form \<open>Symbol(id)\<close>, which \<open>String\<close>
  gives.
\<close>

theorem Result_unwrap_symbol_payload:
  "Result_unwrap (ErrResult (JSymbol ''id'') :: (unit, jsval) Result)
     = Inl (TypeError ''Cannot convert a Symbol value to a string'')
   \<and> String_call (JSymbol ''id'') = Inr ''Symbol(id)''
   \<and> Result_unwrap (ErrResult (JSymbol ''id'') :: (unit, jsval) Result)
     \<noteq> Inl (Error ''Called unwrap on an Err value: Symbol(id)'')"
  by simp

subsection \<open>Option.fromNullable\<close>

text \<open>
  C3. For every value \<open>v\<close>, \<open>Option.fromNullable(v)\<close> is Absent exactly when \<open>v\<close> is
  \<open>null\<close> or \<open>undefined\<close>, and is Present with payload \<open>v\<close> for every other value; in
  particular for the falsy values \<open>0\<close>, \<open>false\<close> and the empty string (and for NaN).
\<close>

theorem fromNullable_nullish:
  "(fromNullable v = NoneOption) = (v = JNull \<or> v = JUndefined)
   \<and> fromNullable v = (if v = JNull \<or> v = JUndefined then NoneOption else SomeOption v)
   \<and> fromNullable (JNum 0) = SomeOption (JNum 0)
   \<and> fromNullable (JBool False) = SomeOption (JBool False)
   \<and> fromNullable (JStr []) = SomeOption (JStr [])
   \<and> fromNullable JNaN = SomeOption JNaN"
  by (cases v) (simp_all add: fromNullable_def)

subsection \<open>Result.combine\<close>

text \<open>
  C4. For every ordered list of Results, \<open>combine\<close> goes through it from the left. A list
  of successes only yields Success of the list of their payloads, in the order of the
  input. A list whose first failure carries \<open>e\<close> yields Failure of that same \<open>e\<close>,
  whatever follows the failure: the elements after it play no part. The empty list yields
  Success of the empty list. Every list has one of the two shapes.
\<close>

theorem combine_first_failure:
  "combine (map OkResult vs) = Inr (OkResult vs)
   \<and> combine (map OkResult vs @ ErrResult e # rest) = Inr (ErrResult e)
   \<and> combine ([] :: ('a, jsval) Result list) = Inr (OkResult [])
   \<and> ((\<exists>ws. results = map OkResult ws)
       \<or> (\<exists>ws e' rest'. results = map OkResult ws @ ErrResult e' # rest'))"
  using Result_list_shape [of results]
  by (simp add: combine_def combine_loop_all_Ok combine_loop_first_Err)

subsection \<open>Result.fromThrowable\<close>

text \<open>
  C5 holds along every path but one. \<open>fromThrowable(fn)\<close> is Success of what \<open>fn\<close>
  returns; a raised fault that is an Error is the payload of the Failure; any other fault
  that \<open>String\<close> converts is wrapped in a new Error with that string as message. But
  \<open>String(e)\<close> stands in the handler, outside \<open>try\<close>: when \<open>fn\<close> raises an object that
  has no primitive form, as \<open>() => { throw Object.create(null) }\<close> does, \<open>String\<close> raises
  a TypeError and \<open>fromThrowable\<close> itself raises it instead of returning a Failure.
\<close>

theorem fromThrowable_raises_on_unprintable_fault:
  "fromThrowable (\<lambda>_. raise (JObject None) :: (unit, unit) eff) ()
     = (Inl (TypeError ''Cannot convert object to primitive value''), ())"
  by (simp add: fromThrowable_def try_catch_def bind_def ret_def lift_def raise_def)

subsection \<open>Functor laws of Option.map\<close>

text \<open>
  C6. \<open>map\<close> of Option satisfies the functor laws, up to structural equality (the
  equality of the datatype; \<open>map\<close> on a Present option builds a new object). For every
  option \<open>opt\<close>: mapping the identity function \<open>x => x\<close> gives an option equal to
  \<open>opt\<close> and leaves the state as it was; and for all functions \<open>f\<close> and \<open>g\<close>, with
  whatever effects and faults they have, \<open>opt.map(f).map(g)\<close> and
  \<open>opt.map(x => g(f(x)))\<close> are the same computation.
\<close>

theorem Option_map_functor:
  "Option_map opt ret = ret opt
   \<and> Option_map opt ret s = (Inr opt, s)
   \<and> bind (Option_map opt f) (\<lambda>opt'. Option_map opt' g) = Option_map opt (\<lambda>x. bind (f x) g)"
  by (cases opt) (simp_all add: bind_ret_left bind_ret_right bind_bind, simp_all add: ret_def)

subsection \<open>The standalone matcher\<close>

text \<open>
  C7. For every container (Option or Result) and every handler pair of that container's
  shape, the free function \<open>match(c, p)\<close> is the same computation as the method
  \<open>c.match(p)\<close>: it runs the handler of the active variant on the payload and nothing
  else.
\<close>

theorem match_delegates:
  "match_Option opt p = Option_match opt p
   \<and> match_Result res q = Result_match res q
   \<and> match_Option (SomeOption v) p = Some_arm p v
   \<and> match_Option NoneOption p = None_arm p ()
   \<and> match_Result (OkResult v') q = Ok_arm q v'
   \<and> match_Result (ErrResult e) q = Err_arm q e"
  by (simp add: match_Option_def match_Result_def)

subsection \<open>The variant a transformation does not touch\<close>

text \<open>
  C8. For every Failure with payload \<open>e\<close> and every function \<open>f\<close>, \<open>map(f)\<close> returns a
  Failure carrying exactly \<open>e\<close>, and \<open>f\<close> leaves no trace in the state; for every Success
  with payload \<open>v\<close> and every function \<open>g\<close>, \<open>mapErr(g)\<close> returns a Success carrying
  exactly \<open>v\<close>, likewise.
\<close>

theorem map_mapErr_untouched:
  "Result_map (ErrResult e) f s = (Inr (ErrResult e), s)
   \<and> Result_mapErr (OkResult v) g s = (Inr (OkResult v), s)"
  by (simp add: ret_def)

subsection \<open>Lazy fallbacks\<close>

text \<open>
  C9. \<open>unwrapOrElse\<close> and \<open>orElse\<close> are lazy in their function argument. On a Present
  option and on a Success result the outcome is the payload (for \<open>orElse\<close>, the container
  itself) with the state unchanged, for every function supplied, whatever it would return,
  change or raise: the function is not invoked and the outcome does not depend on it. On
  Absent and on Failure the outcome is that of one call of the function (with the error
  payload, for a Result). With a function that counts its invocations, the count stays as
  it was in the first case and goes up by exactly one in the second.
\<close>

theorem fallback_lazy:
  "Option_unwrapOrElse (SomeOption v) f s = (Inr v, s)
   \<and> Option_orElse (SomeOption v) g s = (Inr (SomeOption v), s)
   \<and> Result_unwrapOrElse (OkResult v) f' s = (Inr v, s)
   \<and> Result_orElse (OkResult v) g' s = (Inr (OkResult v), s)
   \<and> Option_unwrapOrElse NoneOption f s = f () s
   \<and> Option_orElse NoneOption g s = g () s
   \<and> Result_unwrapOrElse (ErrResult e) f' s = f' e s
   \<and> Result_orElse (ErrResult e) g' s = g' e s
   \<and> snd (Option_unwrapOrElse (SomeOption v) (counting h) n) = n
   \<and> snd (Option_orElse (SomeOption v) (counting k) n) = n
   \<and> snd (Result_unwrapOrElse (OkResult v) (counting h') n) = n
   \<and> snd (Result_orElse (OkResult v) (counting k') n) = n
   \<and> snd (Option_unwrapOrElse NoneOption (counting h) n) = Suc n
   \<and> snd (Option_orElse NoneOption (counting k) n) = Suc n
   \<and> snd (Result_unwrapOrElse (ErrResult e) (counting h') n) = Suc n
   \<and> snd (Result_orElse (ErrResult e) (counting k') n) = Suc n"
  by (simp add: ret_def counting_def)

subsection \<open>zip and combine never raise\<close>

text \<open>
  C10. \<open>zip\<close> and \<open>combine\<close> are total although they call the partial extractors. For
  every pair of options \<open>zip\<close> returns: Present of the pair when both are Present, Absent
  otherwise. For every list of results \<open>combine\<close> returns. The extractor calls cannot
  fail where they stand: \<open>unwrap\<close> of an option that answered \<open>isSome()\<close> returns,
  \<open>unwrapErr\<close> of a result that answered \<open>isErr()\<close> returns, and \<open>unwrap\<close> of a result
  that did not answer \<open>isErr()\<close> returns.
\<close>

theorem zip_combine_total:
  "Option_zip a b =
     Inr (case a of
            SomeOption x \<Rightarrow> (case b of SomeOption y \<Rightarrow> SomeOption (x, y) | NoneOption \<Rightarrow> NoneOption)
          | NoneOption \<Rightarrow> NoneOption)
   \<and> (\<exists>r. combine results = Inr r)
   \<and> (isSome b \<longrightarrow> (\<exists>u. Option_unwrap b = Inr u))
   \<and> (isErr res \<longrightarrow> (\<exists>e. Result_unwrapErr res = Inr e))
   \<and> (\<not> isErr res' \<longrightarrow> (\<exists>v. Result_unwrap res' = Inr v))"
proof -
  have "Option_zip a b =
     Inr (case a of
            SomeOption x \<Rightarrow> (case b of SomeOption y \<Rightarrow> SomeOption (x, y) | NoneOption \<Rightarrow> NoneOption)
          | NoneOption \<Rightarrow> NoneOption)"
    by (cases a; cases b) simp_all
  moreover have "\<exists>r. combine results = Inr r"
    unfolding combine_def by (rule combine_loop_returns)
  moreover have "isSome b \<longrightarrow> (\<exists>u. Option_unwrap b = Inr u)"
    by (cases b) simp_all
  moreover have "isErr res \<longrightarrow> (\<exists>e. Result_unwrapErr res = Inr e)"
    by (cases res) simp_all
  moreover have "\<not> isErr res' \<longrightarrow> (\<exists>v. Result_unwrap res' = Inr v)"
    by (cases res') simp_all
  ultimately show ?thesis by blast
qed

theorem zip_combine_total_witness:
  "Option_zip (SomeOption (1::int)) (SomeOption ''a'') = Inr (SomeOption (1, ''a''))
   \<and> (\<exists>r. combine [OkResult (1::int), ErrResult (JStr ''x''), OkResult 3] = Inr r)
   \<and> isSome (SomeOption ''a'') \<and> (\<exists>u. Option_unwrap (SomeOption ''a'') = Inr u)
   \<and> isErr (ErrResult (JStr ''x'') :: (int, jsval) Result)
   \<and> (\<exists>e. Result_unwrapErr (ErrResult (JStr ''x'') :: (int, jsval) Result) = Inr e)
   \<and> \<not> isErr (OkResult (1::int) :: (int, jsval) Result)
   \<and> (\<exists>v. Result_unwrap (OkResult (1::int)) = Inr v)"
  using zip_combine_total [of "SomeOption (1::int)" "SomeOption ''a''"
      "[OkResult (1::int), ErrResult (JStr ''x''), OkResult 3]"
      "ErrResult (JStr ''x'') :: (int, jsval) Result" "OkResult (1::int)"]
  by simp

end
